theory Spec2Isabelle
  imports Complex_Main
begin

section \<open>Python values used by the ansatz base class\<close>

text \<open>
  The exceptions that the modelled code can raise: \<open>TypeError\<close> when a 0-d array is
  iterated, \<open>AttributeError\<close> when \<open>self.params\<close> is read before the constructor has set
  it, and \<open>ShapeError\<close> (a \<open>ValueError\<close>) for a transformation matrix of the wrong shape.
\<close>

datatype error = TypeError | AttributeError | ShapeError

text \<open>\<open>cirq.Symbol(name)\<close>: a named placeholder.\<close>

datatype symbol = Symbol string

text \<open>
  A Python \<open>dict\<close> as an association list with unique keys in insertion order.
  \<open>d[k] = v\<close> overwrites the value of a key that is present, in place, and appends a
  key that is not; \<open>len(d)\<close> is the length of the list and a lookup is \<open>map_of\<close>.
\<close>

type_synonym ('k, 'v) dict = "('k \<times> 'v) list"

fun dict_setitem :: "('k, 'v) dict \<Rightarrow> 'k \<Rightarrow> 'v \<Rightarrow> ('k, 'v) dict" where
  "dict_setitem [] k v = [(k, v)]"
| "dict_setitem ((k', v') # d) k v =
     (if k' = k then (k, v) # d else (k', v') # dict_setitem d k v)"

text \<open>
  \<open>dict(pairs)\<close> and the comprehension \<open>{k: v for ...}\<close>: the pairs are stored one after
  the other, left to right, into a dictionary that starts empty.
\<close>

fun dict_update_pairs :: "('k, 'v) dict \<Rightarrow> ('k \<times> 'v) list \<Rightarrow> ('k, 'v) dict" where
  "dict_update_pairs d [] = d"
| "dict_update_pairs d ((k, v) # ps) = dict_update_pairs (dict_setitem d k v) ps"

definition dict_from_pairs :: "('k \<times> 'v) list \<Rightarrow> ('k, 'v) dict" where
  "dict_from_pairs ps = dict_update_pairs [] ps"

text \<open>
  A \<open>numpy.ndarray\<close> as far as iteration sees it: a 0-d array holds one scalar and
  cannot be iterated (\<open>TypeError: iteration over a 0-d array\<close>); an array of one or
  more dimensions iterates over its first axis.
\<close>

datatype 'v ndarray = Array0 'v | Array1 "'v list"

fun iter_ndarray :: "'v ndarray \<Rightarrow> error + 'v list" where
  "iter_ndarray (Array0 x) = Inl TypeError"
| "iter_ndarray (Array1 xs) = Inr xs"

text \<open>\<open>cirq.ParamResolver(param_dict)\<close> wraps the dictionary from names to values.\<close>

datatype 'v param_resolver_obj = ParamResolver "(string, 'v) dict"

fun value_of :: "'v param_resolver_obj \<Rightarrow> string \<Rightarrow> 'v option" where
  "value_of (ParamResolver d) name = map_of d name"


section \<open>\<open>VariationalAnsatz\<close> (variational/ansatz.py)\<close>

text \<open>
  An instance: the attributes of the subclass (\<open>qubits\<close> among them), which the base
  class never writes, and the two attributes the base constructor sets. \<open>None\<close> stands
  for an attribute that has not been assigned yet.
\<close>

record ('a, 'c) ansatz =
  attrs :: 'a
  params :: "(string, symbol) dict option"
  circuit :: "'c option"

text \<open>
  A subclass supplies the two abstract methods. \<open>param_names\<close> reads the attributes
  of the subclass; \<open>generate_circuit\<close> reads the instance as it is when it is called.
  Both are taken to return a value and to leave the instance as it is, as their
  signatures (\<open>List[str]\<close>, \<open>cirq.Circuit\<close>) and docstrings describe them.
\<close>

record ('a, 'c) ansatz_class =
  param_names :: "'a \<Rightarrow> string list"
  generate_circuit :: "('a, 'c) ansatz \<Rightarrow> 'c"

text \<open>
  \<open>__init__\<close>, first statement:
  \<^verbatim>\<open>self.params = {param_name: cirq.Symbol(param_name) for param_name in self.param_names()}\<close>
\<close>

definition init_params :: "('a, 'c) ansatz_class \<Rightarrow> ('a, 'c) ansatz \<Rightarrow> ('a, 'c) ansatz" where
  "init_params cls self =
     self\<lparr>params := Some (dict_from_pairs
       (map (\<lambda>param_name. (param_name, Symbol param_name)) (param_names cls (attrs self))))\<rparr>"

text \<open>
  \<open>__init__\<close>, both statements: the second is
  \<^verbatim>\<open>self.circuit = self.generate_circuit()\<close>
\<close>

definition VariationalAnsatz_init ::
  "('a, 'c) ansatz_class \<Rightarrow> ('a, 'c) ansatz \<Rightarrow> ('a, 'c) ansatz" where
  "VariationalAnsatz_init cls self =
     (let self1 = init_params cls self
      in self1\<lparr>circuit := Some (generate_circuit cls self1)\<rparr>)"

text \<open>
  \<^verbatim>\<open>return cirq.ParamResolver(dict(zip(self.param_names(), param_values)))\<close>
  \<open>zip\<close> stops at the end of the shorter sequence.
\<close>

definition param_resolver ::
  "('a, 'c) ansatz_class \<Rightarrow> ('a, 'c) ansatz \<Rightarrow> 'v ndarray \<Rightarrow> error + 'v param_resolver_obj" where
  "param_resolver cls self param_values =
     (case iter_ndarray param_values of
        Inl e \<Rightarrow> Inl e
      | Inr vs \<Rightarrow> Inr (ParamResolver (dict_from_pairs (zip (param_names cls (attrs self)) vs))))"

text \<open>\<^verbatim>\<open>return numpy.zeros(len(self.params))\<close>\<close>

definition default_initial_params :: "('a, 'c) ansatz \<Rightarrow> error + real list" where
  "default_initial_params self =
     (case params self of
        None \<Rightarrow> Inl AttributeError
      | Some d \<Rightarrow> Inr (replicate (length d) 0))"

text \<open>\<^verbatim>\<open>return None\<close>\<close>

definition param_bounds :: "('a, 'c) ansatz \<Rightarrow> (real \<times> real) list option" where
  "param_bounds self = None"

subsection \<open>A concrete subclass\<close>

text \<open>
  A subclass with two parameters, whose circuit is just the list of the names it finds
  in \<open>self.params\<close>, and an instance of it before the base constructor runs.
\<close>

definition example_class :: "(unit, string list) ansatz_class" where
  "example_class =
     \<lparr>param_names = (\<lambda>_. [''theta_0'', ''theta_1'']),
      generate_circuit = (\<lambda>self. case params self of None \<Rightarrow> [] | Some d \<Rightarrow> map fst d)\<rparr>"

definition example_self :: "(unit, string list) ansatz" where
  "example_self = \<lparr>attrs = (), params = None, circuit = None\<rparr>"

section \<open>The Bogoliubov circuit synthesizer\<close>

text \<open>
  Modelled from the spec: the transformation matrix, of which the synthesizer's contract
  reads only the shape (rows, columns). The module that defines \<open>bogoliubov_transform\<close>
  is not among the sources; only its test file is.
\<close>

datatype 'a matrix = Matrix (shape: "nat \<times> nat") (entry: "nat \<Rightarrow> nat \<Rightarrow> 'a")

text \<open>\<open>numpy.zeros((rows, columns))\<close>, as the shape test builds its argument.\<close>

definition zeros :: "nat \<times> nat \<Rightarrow> real matrix" where
  "zeros shp = Matrix shp (\<lambda>i j. 0)"

text \<open>
  Modelled from the spec: a lazily produced gate sequence, given by the gates it yields
  in order and the exception, if any, that ends it. \<open>next_item\<close> is the first pull
  (\<open>next(...)\<close> in the test): the first gate, the exception, or the end of the sequence.
\<close>

datatype 'g gen_step = Yield 'g | Raise error | StopIteration

type_synonym 'g generator = "'g list \<times> error option"

fun next_item :: "'g generator \<Rightarrow> 'g gen_step" where
  "next_item (g # gs, e) = Yield g"
| "next_item ([], Some e) = Raise e"
| "next_item ([], None) = StopIteration"

text \<open>
  Modelled from the spec: \<open>synthesize(qubits, transformation_matrix, initial_state)\<close>.
  Section 4.1: the matrix "must have shape (n, n) or (n, 2n) where n = len(qubits); any
  other shape fails with a reported shape error before any gate is produced". The spec
  leaves the decomposition into elementary rotations open, so the gates of a well-shaped
  matrix are those of a parameter \<open>decompose\<close>.
\<close>

definition bogoliubov_transform ::
  "('q list \<Rightarrow> 'a matrix \<Rightarrow> 'i option \<Rightarrow> 'g list) \<Rightarrow>
   'q list \<Rightarrow> 'a matrix \<Rightarrow> 'i option \<Rightarrow> 'g generator" where
  "bogoliubov_transform decompose qubits transformation_matrix initial_state =
     (let n = length qubits
      in if shape transformation_matrix = (n, n) \<or> shape transformation_matrix = (n, 2 * n)
         then (decompose qubits transformation_matrix initial_state, None)
         else ([], Some ShapeError))"

section \<open>Dictionary lemmas\<close>

lemma map_of_dict_setitem: "map_of (dict_setitem d k v) = (map_of d)(k \<mapsto> v)"
  by (induction d) auto

lemma keys_dict_setitem: "fst ` set (dict_setitem d k v) = insert k (fst ` set d)"
proof -
  have "fst ` set (dict_setitem d k v) = dom (map_of (dict_setitem d k v))"
    by (simp only: dom_map_of_conv_image_fst)
  also have "\<dots> = insert k (dom (map_of d))"
    by (simp only: map_of_dict_setitem dom_fun_upd) simp
  finally show ?thesis
    by (simp only: dom_map_of_conv_image_fst)
qed

lemma distinct_dict_setitem:
  "distinct (map fst d) \<Longrightarrow> distinct (map fst (dict_setitem d k v))"
  by (induction d) (auto simp: keys_dict_setitem)

lemma map_of_dict_update_pairs:
  "map_of (dict_update_pairs d ps) = map_of d ++ map_of (rev ps)"
proof (induction d ps rule: dict_update_pairs.induct)
  case (1 d)
  show ?case by simp
next
  case (2 d k v ps)
  have "map_of (dict_update_pairs d ((k, v) # ps)) = (map_of d)(k \<mapsto> v) ++ map_of (rev ps)"
    by (simp only: dict_update_pairs.simps 2 map_of_dict_setitem)
  also have "\<dots> = map_of d ++ map_of (rev ((k, v) # ps))"
    by (rule ext) (simp add: map_add_def split: option.splits)
  finally show ?case .
qed

lemma keys_dict_update_pairs:
  "fst ` set (dict_update_pairs d ps) = fst ` set d \<union> fst ` set ps"
  by (induction d ps rule: dict_update_pairs.induct) (auto simp: keys_dict_setitem)

lemma distinct_dict_update_pairs:
  "distinct (map fst d) \<Longrightarrow> distinct (map fst (dict_update_pairs d ps))"
  by (induction d ps rule: dict_update_pairs.induct) (auto simp: distinct_dict_setitem)

lemma keys_dict_from_pairs: "fst ` set (dict_from_pairs ps) = fst ` set ps"
  by (simp add: dict_from_pairs_def keys_dict_update_pairs)

lemma distinct_dict_from_pairs: "distinct (map fst (dict_from_pairs ps))"
  by (simp add: dict_from_pairs_def distinct_dict_update_pairs)

lemma map_of_dict_from_pairs: "map_of (dict_from_pairs ps) = map_of (rev ps)"
  by (simp add: dict_from_pairs_def map_of_dict_update_pairs)

lemma length_dict_from_pairs: "length (dict_from_pairs ps) = card (fst ` set ps)"
proof -
  have "length (dict_from_pairs ps) = length (map fst (dict_from_pairs ps))"
    by simp
  also have "\<dots> = card (set (map fst (dict_from_pairs ps)))"
    using distinct_dict_from_pairs [of ps] by (simp only: distinct_card)
  also have "\<dots> = card (fst ` set ps)"
    by (simp add: keys_dict_from_pairs)
  finally show ?thesis .
qed

section \<open>\<open>zip\<close> lemmas\<close>


lemma map_of_rev_zip_nth:
  assumes "distinct xs" "i < length xs" "i < length ys"
  shows "map_of (rev (zip xs ys)) (xs ! i) = Some (ys ! i)"
proof -
  have "distinct (map fst (zip xs ys))"
    using assms(1) by (simp only: map_fst_zip_take distinct_take)
  then have "distinct (map fst (rev (zip xs ys)))"
    by (simp add: rev_map [symmetric])
  moreover have "(xs ! i, ys ! i) \<in> set (rev (zip xs ys))"
    using assms(2,3) by (auto simp: set_zip)
  ultimately show ?thesis
    by (rule map_of_is_SomeI)
qed




section \<open>The constructor\<close>

text \<open>
  Claim C8. For every subclass, the constructor first builds \<open>params\<close>, one \<open>Symbol\<close>
  per name returned by \<open>param_names\<close>, and only then calls \<open>generate_circuit\<close>: the
  circuit stored is the one \<open>generate_circuit\<close> produces from the instance that already
  carries \<open>params\<close>, the keys of that dictionary are exactly the parameter names, and
  each name is mapped to the placeholder of the same name. Storing the circuit leaves
  \<open>params\<close> as it was.
\<close>

theorem init_params_then_generate_circuit:
  "circuit (VariationalAnsatz_init cls self) = Some (generate_circuit cls (init_params cls self))
   \<and> params (VariationalAnsatz_init cls self) = params (init_params cls self)
   \<and> (\<exists>d. params (init_params cls self) = Some d
          \<and> fst ` set d = set (param_names cls (attrs self))
          \<and> (\<forall>n \<in> set (param_names cls (attrs self)). map_of d n = Some (Symbol n)))"
proof -
  let ?names = "param_names cls (attrs self)"
  let ?ps = "map (\<lambda>n. (n, Symbol n)) ?names"
  let ?d = "dict_from_pairs ?ps"
  have keys: "fst ` set ?d = set ?names"
    by (simp add: keys_dict_from_pairs image_image)
  have vals: "map_of ?d n = Some (Symbol n)" if "n \<in> set ?names" for n
  proof -
    have uniq: "distinct (map fst ?d)" by (rule distinct_dict_from_pairs)
    from that keys obtain s where s: "(n, s) \<in> set ?d" by force
    then have "map_of ?d n = Some s"
      using uniq by (simp add: map_of_is_SomeI)
    then have "map_of (rev ?ps) n = Some s"
      by (simp only: map_of_dict_from_pairs)
    then have "(n, s) \<in> set (rev ?ps)" by (rule map_of_SomeD)
    then have "s = Symbol n" by auto
    with s have "(n, Symbol n) \<in> set ?d" by simp
    with uniq show ?thesis by (rule map_of_is_SomeI)
  qed
  have "params (init_params cls self) = Some ?d"
    by (simp add: init_params_def)
  with keys vals show ?thesis
    by (simp add: VariationalAnsatz_init_def Let_def)
qed

theorem init_params_then_generate_circuit_witness:
  "''theta_1'' \<in> set (param_names example_class (attrs example_self))
   \<and> circuit (VariationalAnsatz_init example_class example_self) = Some [''theta_0'', ''theta_1'']
   \<and> (\<exists>d. params (init_params example_class example_self) = Some d
          \<and> map_of d ''theta_1'' = Some (Symbol ''theta_1''))"
  using init_params_then_generate_circuit [of example_class example_self]
  by (simp add: example_class_def example_self_def init_params_def dict_from_pairs_def)

section \<open>The defaults\<close>

text \<open>
  Claim C9. For a subclass whose parameter names are unique, \<open>default_initial_params\<close>
  of a constructed instance is a vector of zeros as long as the list that \<open>param_names\<close>
  returns, and \<open>param_resolver\<close> maps the name at each position to the value at the same
  position of the input array.
\<close>

theorem default_initial_params_and_param_resolver:
  assumes "distinct (param_names cls (attrs self))"
  shows "default_initial_params (VariationalAnsatz_init cls self)
           = Inr (replicate (length (param_names cls (attrs self))) 0)
         \<and> (\<exists>r. param_resolver cls (VariationalAnsatz_init cls self) (Array1 vals) = Inr r
                \<and> (\<forall>i. i < length (param_names cls (attrs self)) \<and> i < length vals
                       \<longrightarrow> value_of r (param_names cls (attrs self) ! i) = Some (vals ! i)))"
proof -
  let ?names = "param_names cls (attrs self)"
  let ?ps = "map (\<lambda>n. (n, Symbol n)) ?names"
  have "fst ` set ?ps = set ?names"
    by (simp add: image_image)
  then have "length (dict_from_pairs ?ps) = length ?names"
    using assms by (simp only: length_dict_from_pairs distinct_card)
  then have zero_vector: "default_initial_params (VariationalAnsatz_init cls self)
      = Inr (replicate (length ?names) 0)"
    by (simp add: default_initial_params_def VariationalAnsatz_init_def init_params_def Let_def)
  have same_attrs: "attrs (VariationalAnsatz_init cls self) = attrs self"
    by (simp add: VariationalAnsatz_init_def init_params_def Let_def)
  let ?r = "ParamResolver (dict_from_pairs (zip ?names vals))"
  have "param_resolver cls (VariationalAnsatz_init cls self) (Array1 vals) = Inr ?r"
    by (simp add: param_resolver_def same_attrs)
  moreover have "value_of ?r (?names ! i) = Some (vals ! i)"
    if "i < length ?names" "i < length vals" for i
    using map_of_rev_zip_nth [OF assms that] by (simp add: map_of_dict_from_pairs)
  ultimately show ?thesis
    using zero_vector by blast
qed

theorem default_initial_params_and_param_resolver_witness:
  "distinct (param_names example_class (attrs example_self))
   \<and> default_initial_params (VariationalAnsatz_init example_class example_self) = Inr [0, 0]
   \<and> (\<exists>r. param_resolver example_class (VariationalAnsatz_init example_class example_self)
              (Array1 [3, 5 :: real]) = Inr r
          \<and> value_of r ''theta_0'' = Some 3 \<and> value_of r ''theta_1'' = Some 5)"
proof -
  have d: "distinct (param_names example_class (attrs example_self))"
    by (simp add: example_class_def)
  have n: "param_names example_class u = [''theta_0'', ''theta_1'']" for u
    by (simp add: example_class_def)
  from default_initial_params_and_param_resolver [OF d, of "[3, 5 :: real]"]
  obtain r where z: "default_initial_params (VariationalAnsatz_init example_class example_self)
        = Inr (replicate (length (param_names example_class (attrs example_self))) 0)"
    and r: "param_resolver example_class (VariationalAnsatz_init example_class example_self)
              (Array1 [3, 5 :: real]) = Inr r"
    and b: "\<And>i. i < length (param_names example_class (attrs example_self))
                \<and> i < length [3, 5 :: real]
          \<Longrightarrow> value_of r (param_names example_class (attrs example_self) ! i)
                = Some ([3, 5 :: real] ! i)"
    by blast
  from b [of 0] b [of 1] have "value_of r ''theta_0'' = Some 3" "value_of r ''theta_1'' = Some 5"
    by (simp_all add: n)
  with d z r show ?thesis
    by (simp add: n numeral_2_eq_2)
qed



section \<open>Shape validation of the synthesizer\<close>

text \<open>
  Claim C5. For a qubit sequence of length \<open>n\<close> and a transformation matrix whose shape
  is neither \<open>(n, n)\<close> nor \<open>(n, 2n)\<close>, the first attempt to obtain an element of the
  produced gate sequence raises the shape error, and no gate has been produced.
\<close>

theorem bad_shape_raises_on_first_pull:
  assumes "shape transformation_matrix \<noteq> (length qubits, length qubits)"
    and "shape transformation_matrix \<noteq> (length qubits, 2 * length qubits)"
  shows "next_item (bogoliubov_transform decompose qubits transformation_matrix initial_state)
           = Raise ShapeError
         \<and> fst (bogoliubov_transform decompose qubits transformation_matrix initial_state) = []"
  using assms by (simp add: bogoliubov_transform_def Let_def)

theorem bad_shape_raises_on_first_pull_witness:
  "shape (zeros (4, 7)) \<noteq> (length [0, 1, 2, 3 :: nat], length [0, 1, 2, 3 :: nat])
   \<and> shape (zeros (4, 7)) \<noteq> (length [0, 1, 2, 3 :: nat], 2 * length [0, 1, 2, 3 :: nat])
   \<and> next_item (bogoliubov_transform (\<lambda>qs m s. [] :: unit list) [0, 1, 2, 3 :: nat]
                  (zeros (4, 7)) (None :: nat option)) = Raise ShapeError"
proof -
  have a: "shape (zeros (4, 7)) \<noteq> (length [0, 1, 2, 3 :: nat], length [0, 1, 2, 3 :: nat])"
    by (simp add: zeros_def)
  have b: "shape (zeros (4, 7))
      \<noteq> (length [0, 1, 2, 3 :: nat], 2 * length [0, 1, 2, 3 :: nat])"
    by (simp add: zeros_def)
  from bad_shape_raises_on_first_pull [OF a b] a b show ?thesis
    by blast
qed

end
